theory Spec2Isabelle
  imports Complex_Main "HOL-Library.Char_ord" "HOL-Library.List_Lexorder"
begin

section \<open>JavaScript values\<close>

text \<open>
  A JavaScript \<open>number\<close> is an IEEE double: a finite value, \<open>NaN\<close> or one of the two
  infinities.  Finite doubles are embedded in the rationals; the rounding of \<open>+\<close> and
  \<open>-\<close> is not modelled (all sums below are sums of integers far below \<open>2^53\<close> in
  practice).  Every comparison with \<open>NaN\<close> is false.
\<close>

datatype jsnum = NaN | PInf | NInf | Fin rat

fun js_lt :: "jsnum \<Rightarrow> jsnum \<Rightarrow> bool" where
  "js_lt (Fin a) (Fin b) = (a < b)"
| "js_lt (Fin a) PInf = True"
| "js_lt NInf (Fin b) = True"
| "js_lt NInf PInf = True"
| "js_lt _ _ = False"

fun js_eq :: "jsnum \<Rightarrow> jsnum \<Rightarrow> bool" where
  "js_eq (Fin a) (Fin b) = (a = b)"
| "js_eq PInf PInf = True"
| "js_eq NInf NInf = True"
| "js_eq _ _ = False"

definition js_gt :: "jsnum \<Rightarrow> jsnum \<Rightarrow> bool" where
  "js_gt a b = js_lt b a"

definition js_le :: "jsnum \<Rightarrow> jsnum \<Rightarrow> bool" where
  "js_le a b = (js_lt a b \<or> js_eq a b)"

definition js_ge :: "jsnum \<Rightarrow> jsnum \<Rightarrow> bool" where
  "js_ge a b = js_le b a"

fun js_add :: "jsnum \<Rightarrow> jsnum \<Rightarrow> jsnum" where
  "js_add (Fin a) (Fin b) = Fin (a + b)"
| "js_add NaN _ = NaN"
| "js_add _ NaN = NaN"
| "js_add PInf NInf = NaN"
| "js_add NInf PInf = NaN"
| "js_add PInf _ = PInf"
| "js_add _ PInf = PInf"
| "js_add NInf _ = NInf"
| "js_add _ NInf = NInf"

fun js_neg :: "jsnum \<Rightarrow> jsnum" where
  "js_neg (Fin a) = Fin (- a)"
| "js_neg NaN = NaN"
| "js_neg PInf = NInf"
| "js_neg NInf = PInf"

definition js_sub :: "jsnum \<Rightarrow> jsnum \<Rightarrow> jsnum" where
  "js_sub a b = js_add a (js_neg b)"

text \<open>
  The values a caller can pass at run time.  TypeScript's parameter types are erased, and
  the functions below test \<open>typeof\<close> themselves, so the parameters they test are modelled
  as arbitrary values.  \<open>JBigInt\<close> is there because \<open>metadata\<close> is a
  \<open>Record<string, unknown>\<close> and \<open>JSON.stringify\<close> rejects a bigint.  Functions,
  symbols and cyclic object graphs are not modelled.  An object is the list of its own
  enumerable properties.
\<close>

datatype jsval =
    JUndefined
  | JNull
  | JBool bool
  | JNum jsnum
  | JBigInt int
  | JStr string
  | JArr "jsval list"
  | JObj "(string \<times> jsval) list"

fun typeof :: "jsval \<Rightarrow> string" where
  "typeof JUndefined = ''undefined''"
| "typeof JNull = ''object''"
| "typeof (JBool _) = ''boolean''"
| "typeof (JNum _) = ''number''"
| "typeof (JBigInt _) = ''bigint''"
| "typeof (JStr _) = ''string''"
| "typeof (JArr _) = ''object''"
| "typeof (JObj _) = ''object''"

text \<open>\<open>!v\<close> is \<open>\<not> truthy v\<close>.\<close>

fun truthy :: "jsval \<Rightarrow> bool" where
  "truthy JUndefined = False"
| "truthy JNull = False"
| "truthy (JBool b) = b"
| "truthy (JNum NaN) = False"
| "truthy (JNum (Fin q)) = (q \<noteq> 0)"
| "truthy (JNum _) = True"
| "truthy (JBigInt i) = (i \<noteq> 0)"
| "truthy (JStr s) = (s \<noteq> [])"
| "truthy (JArr _) = True"
| "truthy (JObj _) = True"

text \<open>\<open>Number.isFinite\<close>: false for every value that is not a finite number.\<close>

fun isFinite :: "jsval \<Rightarrow> bool" where
  "isFinite (JNum (Fin _)) = True"
| "isFinite _ = False"

text \<open>
  An optional parameter of type \<open>string\<close> (\<open>secret\<close>, \<open>signature\<close>): \<open>None\<close> is
  \<open>undefined\<close>.  The code tests these by truthiness only, so the empty string counts as
  absent.
\<close>

fun truthyStr :: "string option \<Rightarrow> bool" where
  "truthyStr None = False"
| "truthyStr (Some s) = (s \<noteq> [])"

section \<open>Strings and number formatting\<close>

definition startsWith :: "string \<Rightarrow> string \<Rightarrow> bool" where
  "startsWith s t = (take (length t) s = t)"

text \<open>The decimal digit \<open>d < 10\<close> as a character.\<close>

definition digit :: "nat \<Rightarrow> char" where
  "digit d = ''0123456789'' ! d"

text \<open>\<open>n.toString()\<close> for a non-negative integer: its decimal digits.\<close>

function natToString :: "nat \<Rightarrow> string" where
  "natToString n = (if n < 10 then [digit n] else natToString (n div 10) @ [digit (n mod 10)])"
  by pat_completeness auto
termination
  by (relation "measure id") auto

declare natToString.simps [simp del]

definition intToString :: "int \<Rightarrow> string" where
  "intToString i = (if i < 0 then CHR ''-'' # natToString (nat (- i)) else natToString (nat i))"

section \<open>The platform\<close>

text \<open>
  What the code takes from Node and the language run time: the SHA-256 digest in hex
  (\<open>createHash('sha256').update(m).digest('hex')\<close>, also Web Crypto's in the browser),
  HMAC-SHA256 in hex (\<open>createHmac('sha256', key).update(m).digest('hex')\<close>), the
  base64 decoder (\<open>Buffer.from(s, 'base64').toString()\<close>, which never throws and is
  forgiving on input that is not base64), and the formatting of a number that is not an
  integer below \<open>10^21\<close>.  They are parameters: every theorem holds for every digest.
\<close>

record platform =
  sha256hex :: "string \<Rightarrow> string"
  hmacSha256hex :: "string \<Rightarrow> string \<Rightarrow> string"
  base64ToString :: "string \<Rightarrow> string"
  fracToString :: "rat \<Rightarrow> string"

text \<open>\<open>String(x)\<close> and \<open>`${x}`\<close> for a number \<open>x\<close>.\<close>

fun numberToString :: "platform \<Rightarrow> jsnum \<Rightarrow> string" where
  "numberToString P NaN = ''NaN''"
| "numberToString P PInf = ''Infinity''"
| "numberToString P NInf = ''-Infinity''"
| "numberToString P (Fin q) =
     (if q = of_int \<lfloor>q\<rfloor> \<and> \<bar>q\<bar> < 10 ^ 21 then intToString \<lfloor>q\<rfloor> else fracToString P q)"

section \<open>The solver (client.ts)\<close>

record SolveOptions =
  so_prefix :: string
  so_target :: string
  so_maxIterations :: "jsnum option"

record SolveResult =
  found :: bool
  sr_nonce :: "string option"
  iterations :: nat
  timeMs :: int
  hashRate :: int
  sr_hash :: "string option"

text \<open>\<open>Math.round\<close> rounds half up.\<close>

definition calculateHashRate :: "nat \<Rightarrow> int \<Rightarrow> int" where
  "calculateHashRate its tMs =
     (if tMs \<le> 0 then 0 else \<lfloor>(of_nat its / of_int tMs) * 1000 + (1 / 2 :: rat)\<rfloor>)"

text \<open>
  The \<open>for\<close> loop of \<open>solveChallenge\<close>, with the loop variable \<open>nonce\<close> and the counter
  \<open>iterations\<close> as arguments.  \<open>startTime\<close> is the clock when the call starts and
  \<open>endTime\<close> the clock when the loop is left (\<open>Date.now()\<close>: the milliseconds since
  the epoch, a natural number).  The loop can run forever
  (\<open>maxIterations = Infinity\<close> and no matching nonce), so it is a partial function:
  \<open>None\<close> means that it does not return.  The progress callback is left out (the model
  is the call without \<open>onProgress\<close>).
\<close>

partial_function (option) solveLoop ::
  "platform \<Rightarrow> string \<Rightarrow> string \<Rightarrow> jsnum \<Rightarrow> nat \<Rightarrow> nat \<Rightarrow> nat \<Rightarrow> nat \<Rightarrow> SolveResult option"
where
  "solveLoop P prefix target maxIterations startTime endTime nonce its =
     (if js_lt (Fin (of_nat nonce)) maxIterations then
        (let its' = its + 1;
             nonceStr = natToString nonce;
             h = sha256hex P (prefix @ nonceStr)
         in if startsWith h target then
              Some \<lparr>found = True, sr_nonce = Some nonceStr, iterations = its',
                    timeMs = int endTime - int startTime,
                    hashRate = calculateHashRate its' (int endTime - int startTime),
                    sr_hash = Some h\<rparr>
            else solveLoop P prefix target maxIterations startTime endTime (nonce + 1) its')
      else
        Some \<lparr>found = False, sr_nonce = None, iterations = its,
              timeMs = int endTime - int startTime,
              hashRate = calculateHashRate its (int endTime - int startTime),
              sr_hash = None\<rparr>)"

declare solveLoop.simps [code]

definition solveChallenge :: "platform \<Rightarrow> SolveOptions \<Rightarrow> nat \<Rightarrow> nat \<Rightarrow> SolveResult option" where
  "solveChallenge P options startTime endTime =
     (let prefix = so_prefix options;
          target = so_target options;
          maxIterations = (case so_maxIterations options of None \<Rightarrow> Fin 10000000 | Some m \<Rightarrow> m)
      in solveLoop P prefix target maxIterations startTime endTime 0 0)"

text \<open>A nonce solves \<open>(prefix, target)\<close> when the digest of \<open>prefix + nonce\<close> starts with the target.\<close>

definition solves :: "platform \<Rightarrow> string \<Rightarrow> string \<Rightarrow> nat \<Rightarrow> bool" where
  "solves P prefix target n = startsWith (sha256hex P (prefix @ natToString n)) target"

text \<open>How many nonces \<open>0, 1, 2, \<dots>\<close> lie below a bound that is not \<open>Infinity\<close>.\<close>

definition noncesBelow :: "jsnum \<Rightarrow> nat" where
  "noncesBelow M = (case M of Fin m \<Rightarrow> nat \<lceil>m\<rceil> | _ \<Rightarrow> 0)"

section \<open>Signing helpers (index.ts)\<close>

datatype error = TypeError string | Error string

text \<open>\<open>hmacSign(payload, secret, length)\<close>: the first \<open>length\<close> hex characters of the HMAC.\<close>

definition hmacSign :: "platform \<Rightarrow> string \<Rightarrow> string \<Rightarrow> nat \<Rightarrow> string" where
  "hmacSign P payload secret len = take len (hmacSha256hex P secret payload)"

text \<open>
  \<open>safeCompare\<close>: strings of different lengths are unequal; otherwise
  \<open>timingSafeEqual\<close> compares the bytes (an exception of it is caught and yields false).
\<close>

definition safeCompare :: "string \<Rightarrow> string \<Rightarrow> bool" where
  "safeCompare a b = (if length a \<noteq> length b then False else a = b)"

text \<open>The lower-case hex digit \<open>d < 16\<close> as a character.\<close>

definition hexDigit :: "nat \<Rightarrow> char" where
  "hexDigit d = ''0123456789abcdef'' ! d"

text \<open>\<open>JSON.stringify\<close> of a string: quoted, with the escapes of ECMA-262 (QuoteJSONString).\<close>

definition jsonEscape :: "char \<Rightarrow> string" where
  "jsonEscape c =
     (if c = CHR 0x22 then [CHR 0x5C, CHR 0x22]
      else if c = CHR 0x5C then [CHR 0x5C, CHR 0x5C]
      else if c = CHR 0x08 then [CHR 0x5C, CHR ''b'']
      else if c = CHR 0x0C then [CHR 0x5C, CHR ''f'']
      else if c = CHR 0x0A then [CHR 0x5C, CHR ''n'']
      else if c = CHR 0x0D then [CHR 0x5C, CHR ''r'']
      else if c = CHR 0x09 then [CHR 0x5C, CHR ''t'']
      else if (of_char c :: nat) < 32 then
        [CHR 0x5C, CHR ''u'', CHR ''0'', CHR ''0'', hexDigit (of_char c div 16), hexDigit (of_char c mod 16)]
      else [c])"

definition jsonQuote :: "string \<Rightarrow> string" where
  "jsonQuote s = [CHR 0x22] @ concat (map jsonEscape s) @ [CHR 0x22]"

text \<open>\<open>Array.prototype.join\<close> on strings.\<close>

fun joinWith :: "string \<Rightarrow> string list \<Rightarrow> string" where
  "joinWith sep [] = []"
| "joinWith sep [x] = x"
| "joinWith sep (x # y # ys) = x @ sep @ joinWith sep (y # ys)"

text \<open>The first exception in a list of results, as a sequential \<open>map\<close> raises it.\<close>

fun firstError :: "(error + 'a) list \<Rightarrow> error option" where
  "firstError [] = None"
| "firstError (Inl e # rs) = Some e"
| "firstError (Inr _ # rs) = firstError rs"

text \<open>
  \<open>canonicalJson\<close>.  The result is a string, or \<open>undefined\<close> (\<open>None\<close>) where
  \<open>JSON.stringify\<close> returns \<open>undefined\<close>, or the \<open>TypeError\<close> that \<open>JSON.stringify\<close>
  throws on a bigint.  \<open>join\<close> prints an \<open>undefined\<close> element as the empty string and
  \<open>+\<close> prints it as \<open>undefined\<close>.  The keys of an object are distinct, so mapping over
  the keys in sorted order and reading each value is mapping over the properties sorted by
  key.
\<close>

fun canonicalJson :: "platform \<Rightarrow> jsval \<Rightarrow> error + string option" where
  "canonicalJson P JUndefined = Inr None"
| "canonicalJson P JNull = Inr (Some ''null'')"
| "canonicalJson P (JBool b) = Inr (Some (if b then ''true'' else ''false''))"
| "canonicalJson P (JNum n) = Inr (Some (case n of Fin q \<Rightarrow> numberToString P n | _ \<Rightarrow> ''null''))"
| "canonicalJson P (JBigInt i) = Inl (TypeError ''Do not know how to serialize a BigInt'')"
| "canonicalJson P (JStr s) = Inr (Some (jsonQuote s))"
| "canonicalJson P (JArr xs) =
     (let rs = map (canonicalJson P) xs in
      case firstError rs of
        Some e \<Rightarrow> Inl e
      | None \<Rightarrow>
          Inr (Some (''['' @ joinWith '','' (map (\<lambda>r. case r of Inr (Some s) \<Rightarrow> s | _ \<Rightarrow> []) rs) @ '']'')))"
| "canonicalJson P (JObj kvs) =
     (let rs = map (\<lambda>(key, v). (key, canonicalJson P v)) (sort_key fst kvs) in
      case firstError (map snd rs) of
        Some e \<Rightarrow> Inl e
      | None \<Rightarrow>
          Inr (Some (''{'' @ joinWith '',''
                 (map (\<lambda>(key, r). jsonQuote key @ '':'' @
                         (case r of Inr (Some s) \<Rightarrow> s | _ \<Rightarrow> ''undefined'')) rs) @ ''}'')))"

text \<open>
  The metadata fingerprint of \<open>createChallenge\<close> and \<open>verifyChallenge\<close>:
  \<open>metadata ? createHash('sha256').update(canonicalJson(metadata)).digest('hex').slice(0, 16) : ''\<close>.
  \<open>metadata\<close> is an object or \<open>undefined\<close>.
\<close>

definition metaHash :: "platform \<Rightarrow> (string \<times> jsval) list option \<Rightarrow> error + string" where
  "metaHash P metadata =
     (case metadata of
        None \<Rightarrow> Inr []
      | Some kvs \<Rightarrow>
          (case canonicalJson P (JObj kvs) of
             Inl e \<Rightarrow> Inl e
           | Inr None \<Rightarrow> Inl (TypeError ''update: the data argument is undefined'')
           | Inr (Some s) \<Rightarrow> Inr (take 16 (sha256hex P s))))"

section \<open>Challenges (index.ts)\<close>

type_synonym byte = char

text \<open>\<open>buffer.toString('hex')\<close>.\<close>

definition hexOfBytes :: "byte list \<Rightarrow> string" where
  "hexOfBytes bs = concat (map (\<lambda>b. [hexDigit (of_char b div 16), hexDigit (of_char b mod 16)]) bs)"

text \<open>The number in a value that \<open>Number.isFinite\<close> has accepted.\<close>

fun numOf :: "jsval \<Rightarrow> jsnum" where
  "numOf (JNum n) = n"
| "numOf _ = NaN"

text \<open>The string in a value whose \<open>typeof\<close> is \<open>string\<close>.\<close>

fun strOf :: "jsval \<Rightarrow> string" where
  "strOf (JStr s) = s"
| "strOf _ = []"

record ChallengeOptions =
  co_difficulty :: jsval
  co_expiresIn :: jsval
  co_metadata :: "(string \<times> jsval) list option"
  co_secret :: "string option"

record Challenge =
  c_id :: string
  c_prefix :: string
  c_target :: string
  c_expiresAt :: jsnum
  c_metadata :: "(string \<times> jsval) list option"
  c_signature :: "string option"

text \<open>\<open>Math.max(1, Math.min(6, Math.floor(difficulty)))\<close> for a finite \<open>difficulty\<close>.\<close>

definition clampDifficulty :: "rat \<Rightarrow> nat" where
  "clampDifficulty d = nat (max 1 (min 6 \<lfloor>d\<rfloor>))"

text \<open>
  \<open>createChallenge\<close>.  \<open>nowMs\<close> is \<open>Date.now()\<close>; \<open>idBytes\<close> and \<open>prefixBytes\<close> are what
  \<open>randomBytes(12)\<close> and \<open>randomBytes(8)\<close> return.  A destructuring default replaces
  \<open>undefined\<close> only.
\<close>

definition createChallenge ::
  "platform \<Rightarrow> ChallengeOptions \<Rightarrow> nat \<Rightarrow> byte list \<Rightarrow> byte list \<Rightarrow> error + Challenge"
where
  "createChallenge P options nowMs idBytes prefixBytes =
     (let difficulty = (if co_difficulty options = JUndefined then JNum (Fin 4) else co_difficulty options);
          expiresIn = (if co_expiresIn options = JUndefined then JNum (Fin 60) else co_expiresIn options);
          metadata = co_metadata options;
          secret = co_secret options;
          expiresIn = (if \<not> isFinite expiresIn \<or> js_le (numOf expiresIn) (Fin 0)
                       then JNum (Fin 60) else expiresIn);
          difficulty = (if \<not> isFinite difficulty then JNum (Fin 4) else difficulty);
          clampedDifficulty = (case numOf difficulty of Fin d \<Rightarrow> clampDifficulty d | _ \<Rightarrow> 0);
          id' = ''nha_'' @ hexOfBytes idBytes;
          prefix = hexOfBytes prefixBytes;
          target = replicate clampedDifficulty (CHR ''0'');
          expiresAt = js_add (Fin (of_nat (nowMs div 1000))) (numOf expiresIn);
          challenge = \<lparr>c_id = id', c_prefix = prefix, c_target = target, c_expiresAt = expiresAt,
                       c_metadata = metadata, c_signature = None\<rparr>
      in if truthyStr secret then
           (case metaHash P metadata of
              Inl e \<Rightarrow> Inl e
            | Inr mh \<Rightarrow>
                (let payload = prefix @ '':'' @ target @ '':'' @ numberToString P expiresAt @ '':'' @ mh
                 in Inr (challenge\<lparr>c_signature := Some (hmacSign P payload (the secret) 32)\<rparr>)))
         else Inr challenge)"

datatype reason =
    expired | invalid_hash | invalid_signature | missing_signature
  | missing_secret | invalid_input | invalid_target | invalid_expiry

record VerifyOptions =
  vo_prefix :: jsval
  vo_nonce :: jsval
  vo_target :: jsval
  vo_expiresAt :: jsval
  vo_signature :: "string option"
  vo_secret :: "string option"
  vo_requireSignature :: bool
  vo_metadata :: "(string \<times> jsval) list option"

record VerifyResult =
  valid :: bool
  reason :: "reason option"
  vr_hash :: "string option"

text \<open>\<open>/^0{1,6}$/.test(target)\<close>: one to six characters, each a zero.\<close>

definition isTarget :: "string \<Rightarrow> bool" where
  "isTarget t = (1 \<le> length t \<and> length t \<le> 6 \<and> list_all (\<lambda>c. c = CHR ''0'') t)"

text \<open>\<open>String(nonce)\<close> for the nonces that pass the input check: a string or a number.\<close>

fun nonceToString :: "platform \<Rightarrow> jsval \<Rightarrow> string" where
  "nonceToString P (JStr s) = s"
| "nonceToString P (JNum n) = numberToString P n"
| "nonceToString P _ = []"

definition reject :: "reason \<Rightarrow> error + VerifyResult" where
  "reject r = Inr \<lparr>valid = False, reason = Some r, vr_hash = None\<rparr>"

definition verifyChallenge :: "platform \<Rightarrow> VerifyOptions \<Rightarrow> nat \<Rightarrow> error + VerifyResult" where
  "verifyChallenge P options nowMs =
     (let prefix = vo_prefix options; nonce = vo_nonce options; target = vo_target options;
          expiresAt = vo_expiresAt options; signature = vo_signature options;
          secret = vo_secret options; requireSignature = vo_requireSignature options;
          metadata = vo_metadata options
      in if \<not> truthy prefix \<or> typeof prefix \<noteq> ''string'' \<or> length (strOf prefix) = 0 then
           reject invalid_input
         else if nonce = JUndefined \<or> nonce = JNull \<or>
                 (typeof nonce \<noteq> ''string'' \<and> typeof nonce \<noteq> ''number'') then
           reject invalid_input
         else if \<not> truthy target \<or> typeof target \<noteq> ''string'' \<or> \<not> isTarget (strOf target) then
           reject invalid_target
         else if \<not> isFinite expiresAt \<or> js_le (numOf expiresAt) (Fin 0) then
           reject invalid_expiry
         else
           (let nonceStr = nonceToString P nonce;
                now = Fin (of_nat (nowMs div 1000))
            in if js_gt now (numOf expiresAt) then reject expired
               else if requireSignature \<and> \<not> truthyStr secret then reject missing_secret
               else if requireSignature \<and> \<not> truthyStr signature then reject missing_signature
               else if truthyStr signature \<and> \<not> truthyStr secret then reject missing_secret
               else
                 (case (if truthyStr signature \<and> truthyStr secret then
                          (case metaHash P metadata of
                             Inl e \<Rightarrow> Inl e
                           | Inr mh \<Rightarrow>
                               (let payload = strOf prefix @ '':'' @ strOf target @ '':'' @
                                              numberToString P (numOf expiresAt) @ '':'' @ mh;
                                    expectedSig = hmacSign P payload (the secret) 32
                                in Inr (safeCompare (the signature) expectedSig)))
                        else Inr True) of
                    Inl e \<Rightarrow> Inl e
                  | Inr False \<Rightarrow> reject invalid_signature
                  | Inr True \<Rightarrow>
                      (let h = sha256hex P (strOf prefix @ nonceStr)
                       in if \<not> startsWith h (strOf target) then
                            Inr \<lparr>valid = False, reason = Some invalid_hash, vr_hash = Some h\<rparr>
                          else Inr \<lparr>valid = True, reason = None, vr_hash = Some h\<rparr>))))"

section \<open>Session tokens (index.ts)\<close>

text \<open>
  \<open>Buffer.from(payload).toString('base64')\<close>: RFC 4648 base64 with padding.  A string is
  the list of its bytes; \<open>b64char\<close> is the character of a six-bit value (\<open>A\<close> to \<open>Z\<close>,
  \<open>a\<close> to \<open>z\<close>, \<open>0\<close> to \<open>9\<close>, \<open>+\<close>, \<open>/\<close>).
\<close>

definition b64char :: "nat \<Rightarrow> char" where
  "b64char n =
     (if n < 26 then char_of (65 + n)
      else if n < 52 then char_of (71 + n)
      else if n < 62 then char_of (n - 4)
      else if n = 62 then CHR ''+''
      else CHR ''/'')"

fun base64 :: "string \<Rightarrow> string" where
  "base64 [] = []"
| "base64 [a] =
     (let x = (of_char a :: nat)
      in [b64char (x div 4), b64char ((x mod 4) * 16), CHR ''='', CHR ''=''])"
| "base64 [a, b] =
     (let x = (of_char a :: nat); y = (of_char b :: nat)
      in [b64char (x div 4), b64char ((x mod 4) * 16 + y div 16), b64char ((y mod 16) * 4), CHR ''=''])"
| "base64 (a # b # c # rest) =
     (let x = (of_char a :: nat); y = (of_char b :: nat); z = (of_char c :: nat)
      in [b64char (x div 4), b64char ((x mod 4) * 16 + y div 16),
          b64char ((y mod 16) * 4 + z div 64), b64char (z mod 64)] @ base64 rest)"

text \<open>\<open>s.split(c)\<close> for a one-character separator: never empty.\<close>

fun splitOn :: "char \<Rightarrow> string \<Rightarrow> string list" where
  "splitOn c [] = [[]]"
| "splitOn c (x # xs) =
     (if x = c then [] # splitOn c xs
      else (case splitOn c xs of [] \<Rightarrow> [[x]] | p # ps \<Rightarrow> (x # p) # ps))"

text \<open>
  \<open>parseInt(s, 10)\<close>: leading white space is skipped, a sign is read, then the longest run
  of decimal digits; \<open>NaN\<close> when there is none.  A value too large for a double is an
  infinity.  Only the ASCII white space is modelled.
\<close>

definition isWhiteSpace :: "char \<Rightarrow> bool" where
  "isWhiteSpace c = (c \<in> set [CHR 0x09, CHR 0x0A, CHR 0x0B, CHR 0x0C, CHR 0x0D, CHR 0x20])"

definition isDigit :: "char \<Rightarrow> bool" where
  "isDigit c = (48 \<le> (of_char c :: nat) \<and> (of_char c :: nat) \<le> 57)"

definition digitsValue :: "string \<Rightarrow> nat" where
  "digitsValue ds = foldl (\<lambda>acc c. 10 * acc + (of_char c - 48)) 0 ds"

definition parseInt10 :: "string \<Rightarrow> jsnum" where
  "parseInt10 s =
     (let s1 = dropWhile isWhiteSpace s;
          neg = (case s1 of c # _ \<Rightarrow> c = CHR ''-'' | [] \<Rightarrow> False);
          s2 = (case s1 of c # r \<Rightarrow> (if c = CHR ''-'' \<or> c = CHR ''+'' then r else s1) | [] \<Rightarrow> s1);
          ds = takeWhile isDigit s2
      in if ds = [] then NaN
         else if digitsValue ds \<ge> 2 ^ 1024 - 2 ^ 970 then (if neg then NInf else PInf)
         else Fin (if neg then - of_nat (digitsValue ds) else of_nat (digitsValue ds)))"

text \<open>\<open>generateToken\<close>; \<open>nowMs\<close> is \<open>Date.now()\<close>.\<close>

definition generateToken :: "platform \<Rightarrow> jsval \<Rightarrow> string option \<Rightarrow> nat \<Rightarrow> error + string" where
  "generateToken P challengeId secret nowMs =
     (if \<not> truthy challengeId \<or> typeof challengeId \<noteq> ''string'' \<or>
         \<not> startsWith (strOf challengeId) ''nha_'' then
        Inl (Error ''Invalid challengeId: must start with nha_'')
      else
        (let timestamp = nowMs;
             payload = strOf challengeId @ '':'' @ natToString timestamp
         in if truthyStr secret then
              (let sig = hmacSign P payload (the secret) 32
               in Inr (base64 payload @ ''.'' @ sig))
            else Inr (base64 payload)))"

record TokenResult =
  t_valid :: bool
  t_challengeId :: "string option"

definition invalidToken :: TokenResult where
  "invalidToken = \<lparr>t_valid = False, t_challengeId = None\<rparr>"

text \<open>
  The body of the \<open>try\<close> block of \<open>verifyToken\<close>.  \<open>maxAgeMs\<close> is \<open>None\<close> when the caller
  leaves it out (the default is 300000); \<open>requireSecret\<close> is \<open>options.requireSecret\<close>.
\<close>

definition verifyTokenBody ::
  "platform \<Rightarrow> jsval \<Rightarrow> string option \<Rightarrow> jsnum option \<Rightarrow> bool \<Rightarrow> nat \<Rightarrow> error + TokenResult"
where
  "verifyTokenBody P token secret maxAgeMs requireSecret nowMs =
     (let maxAgeMs = (case maxAgeMs of None \<Rightarrow> Fin 300000 | Some m \<Rightarrow> m)
      in if \<not> truthy token \<or> typeof token \<noteq> ''string'' then Inr invalidToken
         else
           (case splitOn (CHR ''.'') (strOf token) of
              [] \<Rightarrow> Inr invalidToken
            | payloadB64 # others \<Rightarrow>
                (let sig = (case others of [] \<Rightarrow> None | x # _ \<Rightarrow> Some x)
                 in if payloadB64 = [] then Inr invalidToken
                    else
                      (let payload = base64ToString P payloadB64;
                           parts = splitOn (CHR '':'') payload
                       in if length parts \<noteq> 2 then Inr invalidToken
                          else
                            (let challengeId = parts ! 0;
                                 timestampStr = parts ! 1;
                                 timestamp = parseInt10 timestampStr
                             in if challengeId = [] \<or> \<not> startsWith challengeId ''nha_'' then
                                  Inr invalidToken
                                else if \<not> isFinite (JNum timestamp) \<or> js_le timestamp (Fin 0) then
                                  Inr invalidToken
                                else if js_ge (js_sub (Fin (of_nat nowMs)) timestamp) maxAgeMs then
                                  Inr invalidToken
                                else if requireSecret \<and> \<not> truthyStr secret then Inr invalidToken
                                else if truthyStr secret \<and> \<not> truthyStr sig then Inr invalidToken
                                else if truthyStr secret \<and>
                                        \<not> safeCompare (the sig) (hmacSign P payload (the secret) 32) then
                                  Inr invalidToken
                                else Inr \<lparr>t_valid = True, t_challengeId = Some challengeId\<rparr>)))))"

text \<open>\<open>verifyToken\<close>: the \<open>catch\<close> turns every exception of the body into \<open>{valid: false}\<close>.\<close>

definition verifyToken ::
  "platform \<Rightarrow> jsval \<Rightarrow> string option \<Rightarrow> jsnum option \<Rightarrow> bool \<Rightarrow> nat \<Rightarrow> TokenResult"
where
  "verifyToken P token secret maxAgeMs requireSecret nowMs =
     (case verifyTokenBody P token secret maxAgeMs requireSecret nowMs of
        Inl e \<Rightarrow> invalidToken
      | Inr r \<Rightarrow> r)"

section \<open>The validation order of the specification\<close>















section \<open>What the specification says of \<open>create\<close>\<close>

text \<open>
  The difficulty and the lifetime a caller asked for, as the specification reads them: a
  difficulty that is missing or not a finite number is 4, a lifetime that is missing, not
  a finite number or not positive is 60.
\<close>

definition requestedDifficulty :: "jsval \<Rightarrow> rat" where
  "requestedDifficulty v = (case v of JNum (Fin d) \<Rightarrow> d | _ \<Rightarrow> 4)"

definition requestedExpiresIn :: "jsval \<Rightarrow> rat" where
  "requestedExpiresIn v = (case v of JNum (Fin x) \<Rightarrow> if 0 < x then x else 60 | _ \<Rightarrow> 60)"



section \<open>A stand-in platform for evaluation\<close>

text \<open>
  The closed examples below need a concrete digest to run the definitions on.  This one
  adds the character codes and prints the sum modulo 256 as two hex digits; its keyed
  variant repeats the digest of the key followed by the message sixteen times.
\<close>

definition b64value :: "char \<Rightarrow> nat option" where
  "b64value c =
     (let n = (of_char c :: nat)
      in if 65 \<le> n \<and> n \<le> 90 then Some (n - 65)
         else if 97 \<le> n \<and> n \<le> 122 then Some (n - 71)
         else if 48 \<le> n \<and> n \<le> 57 then Some (n + 4)
         else if c = CHR ''+'' \<or> c = CHR ''-'' then Some 62
         else if c = CHR ''/'' \<or> c = CHR ''_'' then Some 63
         else None)"

fun sextetsToBytes :: "nat list \<Rightarrow> string" where
  "sextetsToBytes (a # b # c # d # rest) =
     [char_of (a * 4 + b div 16), char_of ((b mod 16) * 16 + c div 4), char_of ((c mod 4) * 64 + d)]
       @ sextetsToBytes rest"
| "sextetsToBytes [a, b, c] = [char_of (a * 4 + b div 16), char_of ((b mod 16) * 16 + c div 4)]"
| "sextetsToBytes [a, b] = [char_of (a * 4 + b div 16)]"
| "sextetsToBytes _ = []"

text \<open>
  A forgiving base64 decoder: it stops at the padding and skips every character outside
  the two alphabets.
\<close>

definition base64Decode :: "string \<Rightarrow> string" where
  "base64Decode s = sextetsToBytes (List.map_filter b64value (takeWhile (\<lambda>c. c \<noteq> CHR ''='') s))"

definition demoDigest :: "string \<Rightarrow> string" where
  "demoDigest s = (let n = sum_list (map of_char s) mod 256 in [hexDigit (n div 16), hexDigit (n mod 16)])"

definition demoPlatform :: platform where
  "demoPlatform =
     \<lparr>sha256hex = demoDigest,
      hmacSha256hex = (\<lambda>key m. concat (replicate 16 (demoDigest (key @ m)))),
      base64ToString = base64Decode,
      fracToString = (\<lambda>q. ''?'')\<rparr>"

section \<open>The solver: what the search returns\<close>

lemma of_nat_less_ceiling: "(of_nat k < (m::rat)) = (k < nat \<lceil>m\<rceil>)"
proof -
  have "(of_nat k < m) = (of_int (int k) < m)" by simp
  also have "\<dots> = (int k < \<lceil>m\<rceil>)" by (simp only: less_ceiling_iff)
  also have "\<dots> = (k < nat \<lceil>m\<rceil>)" by linarith
  finally show ?thesis .
qed

lemma js_lt_mono: "js_lt (Fin (of_nat n)) M \<Longrightarrow> k \<le> n \<Longrightarrow> js_lt (Fin (of_nat k)) M"
  by (cases M) (auto elim: order.strict_trans1 [rotated] simp: order.strict_trans1)

lemma solveLoop_found:
  assumes "k \<le> n" "js_lt (Fin (of_nat n)) M" "solves P p t n" "\<forall>j. k \<le> j \<and> j < n \<longrightarrow> \<not> solves P p t j"
  shows "solveLoop P p t M s e k i =
     Some \<lparr>found = True, sr_nonce = Some (natToString n), iterations = i + (n - k) + 1,
           timeMs = int e - int s, hashRate = calculateHashRate (i + (n - k) + 1) (int e - int s),
           sr_hash = Some (sha256hex P (p @ natToString n))\<rparr>"
  using assms
proof (induction "n - k" arbitrary: k i)
  case 0
  then have "k = n" by simp
  with 0 show ?case
    by (subst solveLoop.simps) (simp add: solves_def Let_def)
next
  case (Suc d)
  then have lt: "k < n" by simp
  then have km: "js_lt (Fin (of_nat k)) M" using Suc.prems(2) js_lt_mono by (meson less_imp_le)
  have ns: "\<not> solves P p t k" using Suc.prems(4) lt by simp
  have step: "solveLoop P p t M s e k i = solveLoop P p t M s e (k + 1) (i + 1)"
    using km ns by (subst solveLoop.simps) (simp add: solves_def Let_def)
  have "solveLoop P p t M s e (k + 1) (i + 1) =
     Some \<lparr>found = True, sr_nonce = Some (natToString n), iterations = (i + 1) + (n - (k + 1)) + 1,
           timeMs = int e - int s, hashRate = calculateHashRate ((i + 1) + (n - (k + 1)) + 1) (int e - int s),
           sr_hash = Some (sha256hex P (p @ natToString n))\<rparr>"
    using Suc.hyps(2) Suc.prems lt by (intro Suc.hyps(1)) auto
  moreover have "(i + 1) + (n - (k + 1)) + 1 = i + (n - k) + 1" using lt by simp
  ultimately show ?case unfolding step by (simp only:)
qed

lemma solveLoop_exhausted:
  assumes "\<forall>j. k \<le> j \<and> of_nat j < m \<longrightarrow> \<not> solves P p t j"
  shows "solveLoop P p t (Fin m) s e k i =
     Some \<lparr>found = False, sr_nonce = None, iterations = i + (nat \<lceil>m\<rceil> - k),
           timeMs = int e - int s, hashRate = calculateHashRate (i + (nat \<lceil>m\<rceil> - k)) (int e - int s),
           sr_hash = None\<rparr>"
  using assms
proof (induction "nat \<lceil>m\<rceil> - k" arbitrary: k i)
  case 0
  then have "\<not> k < nat \<lceil>m\<rceil>" by simp
  then have "\<not> of_nat k < m" by (simp add: of_nat_less_ceiling)
  moreover have "nat \<lceil>m\<rceil> - k = 0" using 0 by simp
  ultimately show ?case
    by (subst solveLoop.simps) simp
next
  case (Suc d)
  then have lt: "k < nat \<lceil>m\<rceil>" by simp
  then have km: "of_nat k < m" by (simp add: of_nat_less_ceiling)
  have ns: "\<not> solves P p t k" using Suc.prems km by simp
  have step: "solveLoop P p t (Fin m) s e k i = solveLoop P p t (Fin m) s e (k + 1) (i + 1)"
    using km ns by (subst solveLoop.simps) (simp add: solves_def Let_def)
  have "solveLoop P p t (Fin m) s e (k + 1) (i + 1) =
     Some \<lparr>found = False, sr_nonce = None, iterations = (i + 1) + (nat \<lceil>m\<rceil> - (k + 1)),
           timeMs = int e - int s, hashRate = calculateHashRate ((i + 1) + (nat \<lceil>m\<rceil> - (k + 1))) (int e - int s),
           sr_hash = None\<rparr>"
    using Suc.hyps(2) Suc.prems by (intro Suc.hyps(1)) auto
  moreover have "(i + 1) + (nat \<lceil>m\<rceil> - (k + 1)) = i + (nat \<lceil>m\<rceil> - k)" using lt by simp
  ultimately show ?case unfolding step by (simp only:)
qed

lemma solveLoop_diverges_aux:
  assumes "solveLoop P p t M s e k i = Some r"
  shows "M = PInf \<longrightarrow> (\<exists>n. solves P p t n)"
proof -
  let ?Q = "\<lambda>x (r::SolveResult). case x of (((((((P, p), t), M), s :: nat), e :: nat), k :: nat), i :: nat) \<Rightarrow>
               M = PInf \<longrightarrow> (\<exists>n. solves P p t n)"
  have "?Q (((((((P, p), t), M), s), e), k), i) r"
  proof (rule solveLoop.raw_induct [where Pa = ?Q, OF _ assms])
    fix f P p t M s e k i r
    assume IH: "\<And>P p t M s e k i r. f P p t M s e k i = Some r \<Longrightarrow> ?Q (((((((P, p), t), M), s), e), k), i) r"
      and body: "(if js_lt (Fin (of_nat k)) M then
          (let its' = i + 1;
               nonceStr = natToString k;
               h = sha256hex P (p @ nonceStr)
           in if startsWith h t then
                Some \<lparr>found = True, sr_nonce = Some nonceStr, iterations = its',
                      timeMs = int e - int s,
                      hashRate = calculateHashRate its' (int e - int s),
                      sr_hash = Some h\<rparr>
              else f P p t M s e (k + 1) its')
        else
          Some \<lparr>found = False, sr_nonce = None, iterations = i,
                timeMs = int e - int s,
                hashRate = calculateHashRate i (int e - int s),
                sr_hash = None\<rparr>) = Some r"
    have "M = PInf \<longrightarrow> (\<exists>n. solves P p t n)"
    proof
      assume inf: "M = PInf"
      show "\<exists>n. solves P p t n"
      proof (cases "solves P p t k")
        case True
        then show ?thesis by blast
      next
        case False
        with body inf have "f P p t M s e (k + 1) (i + 1) = Some r"
          by (simp add: solves_def Let_def)
        then have "?Q (((((((P, p), t), M), s), e), k + 1), i + 1) r" by (rule IH)
        with inf show ?thesis by simp
      qed
    qed
    then show "?Q (((((((P, p), t), M), s), e), k), i) r" by simp
  qed
  then show ?thesis by simp
qed

lemma solveLoop_diverges:
  "\<forall>n. \<not> solves P p t n \<Longrightarrow> solveLoop P p t PInf s e k i = None"
  using solveLoop_diverges_aux [of P p t PInf s e k i] by (cases "solveLoop P p t PInf s e k i") auto

lemma solveLoop_no_iteration:
  "M = NaN \<or> M = NInf \<Longrightarrow> solveLoop P p t M s e k i =
     Some \<lparr>found = False, sr_nonce = None, iterations = i,
           timeMs = int e - int s, hashRate = calculateHashRate i (int e - int s), sr_hash = None\<rparr>"
  by (subst solveLoop.simps) auto

lemma solveChallenge_all:
  "solveChallenge P \<lparr>so_prefix = p, so_target = t, so_maxIterations = Some M\<rparr> s e =
     (if \<exists>n. js_lt (Fin (of_nat n)) M \<and> solves P p t n then
        (let n = (LEAST n. solves P p t n) in
         Some \<lparr>found = True, sr_nonce = Some (natToString n), iterations = n + 1,
               timeMs = int e - int s, hashRate = calculateHashRate (n + 1) (int e - int s),
               sr_hash = Some (sha256hex P (p @ natToString n))\<rparr>)
      else if M = PInf then None
      else Some \<lparr>found = False, sr_nonce = None, iterations = noncesBelow M,
                 timeMs = int e - int s, hashRate = calculateHashRate (noncesBelow M) (int e - int s),
                 sr_hash = None\<rparr>)"
proof -
  have R: "solveChallenge P \<lparr>so_prefix = p, so_target = t, so_maxIterations = Some M\<rparr> s e =
      solveLoop P p t M s e 0 0"
    by (simp add: solveChallenge_def)
  show ?thesis
  proof (cases "\<exists>n. js_lt (Fin (of_nat n)) M \<and> solves P p t n")
    case True
    then obtain n where n: "js_lt (Fin (of_nat n)) M" "solves P p t n" by blast
    define n0 where "n0 = (LEAST n. solves P p t n)"
    have s0: "solves P p t n0" unfolding n0_def using n(2) by (rule LeastI)
    have le: "n0 \<le> n" unfolding n0_def using n(2) by (rule Least_le)
    have lt0: "js_lt (Fin (of_nat n0)) M" using n(1) le by (rule js_lt_mono)
    have min: "\<forall>j. 0 \<le> j \<and> j < n0 \<longrightarrow> \<not> solves P p t j"
      unfolding n0_def using not_less_Least by blast
    have "solveLoop P p t M s e 0 0 =
       Some \<lparr>found = True, sr_nonce = Some (natToString n0), iterations = 0 + (n0 - 0) + 1,
             timeMs = int e - int s, hashRate = calculateHashRate (0 + (n0 - 0) + 1) (int e - int s),
             sr_hash = Some (sha256hex P (p @ natToString n0))\<rparr>"
      using _ lt0 s0 min by (rule solveLoop_found) simp
    then show ?thesis unfolding R if_P [OF True] by (simp add: n0_def Let_def)
  next
    case False
    show ?thesis
    proof (cases M)
      case (Fin m)
      with False have "\<forall>j. 0 \<le> j \<and> of_nat j < m \<longrightarrow> \<not> solves P p t j" by auto
      then have "solveLoop P p t (Fin m) s e 0 0 =
         Some \<lparr>found = False, sr_nonce = None, iterations = 0 + (nat \<lceil>m\<rceil> - 0),
             timeMs = int e - int s, hashRate = calculateHashRate (0 + (nat \<lceil>m\<rceil> - 0)) (int e - int s),
             sr_hash = None\<rparr>" by (rule solveLoop_exhausted)
      then show ?thesis unfolding R if_not_P [OF False] by (simp add: Fin noncesBelow_def)
    next
      case PInf
      with False have "\<forall>n. \<not> solves P p t n" by simp
      then have "solveLoop P p t PInf s e 0 0 = None" by (rule solveLoop_diverges)
      then show ?thesis unfolding R if_not_P [OF False] by (simp add: PInf)
    next
      case NaN
      show ?thesis unfolding R if_not_P [OF False]
        by (simp add: NaN noncesBelow_def solveLoop_no_iteration)
    next
      case NInf
      show ?thesis unfolding R if_not_P [OF False]
        by (simp add: NInf noncesBelow_def solveLoop_no_iteration)
    qed
  qed
qed





section \<open>Verifying a solution\<close>

lemma prefix_guard:
  "(\<not> truthy v \<or> typeof v \<noteq> ''string'' \<or> length (strOf v) = 0) = (\<not> (\<exists>s. v = JStr s \<and> s \<noteq> []))"
  by (cases v) auto

lemma nonce_guard:
  "(v = JUndefined \<or> v = JNull \<or> (typeof v \<noteq> ''string'' \<and> typeof v \<noteq> ''number'')) =
     (\<not> ((\<exists>s. v = JStr s) \<or> (\<exists>x. v = JNum x)))"
  by (cases v) auto

lemma target_guard:
  "(\<not> truthy v \<or> typeof v \<noteq> ''string'' \<or> \<not> isTarget (strOf v)) = (\<not> (\<exists>t. v = JStr t \<and> isTarget t))"
  by (cases v) (auto simp: isTarget_def)

lemma expiry_guard:
  "(\<not> isFinite v \<or> js_le (numOf v) (Fin 0)) = (\<not> (\<exists>x. v = JNum (Fin x) \<and> 0 < x))"
proof (cases v)
  case (JNum n)
  then show ?thesis by (cases n) (auto simp: js_le_def)
qed auto

lemma verifyChallenge_passed_inputs:
  assumes "vo_prefix opts = JStr p" "p \<noteq> []"
      and "(\<exists>s. vo_nonce opts = JStr s) \<or> (\<exists>x. vo_nonce opts = JNum x)"
      and "vo_target opts = JStr t" "isTarget t"
      and "vo_expiresAt opts = JNum (Fin x)" "0 < x"
  shows "verifyChallenge P opts nowMs =
     (if of_nat (nowMs div 1000) > x then reject expired
      else if vo_requireSignature opts \<and> \<not> truthyStr (vo_secret opts) then reject missing_secret
      else if vo_requireSignature opts \<and> \<not> truthyStr (vo_signature opts) then reject missing_signature
      else if truthyStr (vo_signature opts) \<and> \<not> truthyStr (vo_secret opts) then reject missing_secret
      else
        (case (if truthyStr (vo_signature opts) \<and> truthyStr (vo_secret opts) then
                 (case metaHash P (vo_metadata opts) of
                    Inl e \<Rightarrow> Inl e
                  | Inr mh \<Rightarrow>
                      Inr (safeCompare (the (vo_signature opts))
                             (hmacSign P (p @ '':'' @ t @ '':'' @ numberToString P (Fin x) @ '':'' @ mh)
                                (the (vo_secret opts)) 32)))
               else Inr True) of
           Inl e \<Rightarrow> Inl e
         | Inr False \<Rightarrow> reject invalid_signature
         | Inr True \<Rightarrow>
             (let h = sha256hex P (p @ nonceToString P (vo_nonce opts))
              in if \<not> startsWith h t then
                   Inr \<lparr>valid = False, reason = Some invalid_hash, vr_hash = Some h\<rparr>
                 else Inr \<lparr>valid = True, reason = None, vr_hash = Some h\<rparr>)))"
proof -
  have g1: "\<not> (\<not> truthy (vo_prefix opts) \<or> typeof (vo_prefix opts) \<noteq> ''string'' \<or> length (strOf (vo_prefix opts)) = 0)"
    unfolding prefix_guard using assms(1,2) by simp
  have g2: "\<not> (vo_nonce opts = JUndefined \<or> vo_nonce opts = JNull \<or>
      (typeof (vo_nonce opts) \<noteq> ''string'' \<and> typeof (vo_nonce opts) \<noteq> ''number''))"
    unfolding nonce_guard using assms(3) by simp
  have g3: "\<not> (\<not> truthy (vo_target opts) \<or> typeof (vo_target opts) \<noteq> ''string'' \<or> \<not> isTarget (strOf (vo_target opts)))"
    unfolding target_guard using assms(4,5) by simp
  have g4: "\<not> (\<not> isFinite (vo_expiresAt opts) \<or> js_le (numOf (vo_expiresAt opts)) (Fin 0))"
    unfolding expiry_guard using assms(6,7) by simp
  show ?thesis
    unfolding verifyChallenge_def Let_def if_not_P [OF g1] if_not_P [OF g2] if_not_P [OF g3] if_not_P [OF g4]
    unfolding assms(1,4,6) strOf.simps numOf.simps js_gt_def js_lt.simps
    by (rule refl)
qed
















section \<open>Creating a challenge\<close>

lemma difficulty_normalised:
  "(case numOf (if \<not> isFinite (if v = JUndefined then JNum (Fin 4) else v) then JNum (Fin 4)
                else (if v = JUndefined then JNum (Fin 4) else v)) of
      Fin d \<Rightarrow> clampDifficulty d | _ \<Rightarrow> 0) = clampDifficulty (requestedDifficulty v)"
proof (cases v)
  case (JNum n)
  then show ?thesis by (cases n) (simp_all add: requestedDifficulty_def)
qed (simp_all add: requestedDifficulty_def)

lemma expiresIn_normalised:
  "numOf (if \<not> isFinite (if v = JUndefined then JNum (Fin 60) else v) \<or>
             js_le (numOf (if v = JUndefined then JNum (Fin 60) else v)) (Fin 0)
          then JNum (Fin 60) else (if v = JUndefined then JNum (Fin 60) else v)) =
     Fin (requestedExpiresIn v)"
proof (cases v)
  case (JNum n)
  then show ?thesis by (cases n) (auto simp: requestedExpiresIn_def js_le_def)
qed (simp_all add: requestedExpiresIn_def js_le_def)

lemma createChallenge_unfold:
  "createChallenge P options nowMs idBytes prefixBytes =
     (let challenge = \<lparr>c_id = ''nha_'' @ hexOfBytes idBytes, c_prefix = hexOfBytes prefixBytes,
             c_target = replicate (clampDifficulty (requestedDifficulty (co_difficulty options))) (CHR ''0''),
             c_expiresAt = Fin (of_nat (nowMs div 1000) + requestedExpiresIn (co_expiresIn options)),
             c_metadata = co_metadata options, c_signature = None\<rparr>
      in if truthyStr (co_secret options) then
           (case metaHash P (co_metadata options) of
              Inl e \<Rightarrow> Inl e
            | Inr mh \<Rightarrow>
                Inr (challenge\<lparr>c_signature := Some (hmacSign P
                       (c_prefix challenge @ '':'' @ c_target challenge @ '':'' @
                        numberToString P (c_expiresAt challenge) @ '':'' @ mh)
                       (the (co_secret options)) 32)\<rparr>))
         else Inr challenge)"
  unfolding createChallenge_def Let_def difficulty_normalised expiresIn_normalised
  by (simp split: sum.splits)

lemma createChallenge_fields:
  assumes "createChallenge P options nowMs idBytes prefixBytes = Inr ch"
  shows "c_id ch = ''nha_'' @ hexOfBytes idBytes"
    and "c_prefix ch = hexOfBytes prefixBytes"
    and "c_target ch = replicate (clampDifficulty (requestedDifficulty (co_difficulty options))) (CHR ''0'')"
    and "c_expiresAt ch = Fin (of_nat (nowMs div 1000) + requestedExpiresIn (co_expiresIn options))"
    and "c_metadata ch = co_metadata options"
  using assms unfolding createChallenge_unfold Let_def
  by (auto split: if_splits sum.splits)

lemma clampDifficulty_range: "1 \<le> clampDifficulty d \<and> clampDifficulty d \<le> 6"
  by (auto simp: clampDifficulty_def)

lemma isTarget_replicate: "isTarget (replicate n (CHR ''0'')) = (1 \<le> n \<and> n \<le> 6)"
  by (auto simp: isTarget_def list_all_iff)

lemma requestedExpiresIn_pos: "0 < requestedExpiresIn v"
  by (auto simp: requestedExpiresIn_def split: jsval.splits jsnum.splits)

lemma length_hexOfBytes: "length (hexOfBytes bs) = 2 * length bs"
  by (induction bs) (auto simp: hexOfBytes_def)











section \<open>Create, solve, verify\<close>

lemma solveChallenge_option:
  "solveChallenge P opts s e =
     solveChallenge P \<lparr>so_prefix = so_prefix opts, so_target = so_target opts,
        so_maxIterations = Some (case so_maxIterations opts of None \<Rightarrow> Fin 10000000 | Some m \<Rightarrow> m)\<rparr> s e"
  by (simp add: solveChallenge_def)

lemma solveChallenge_found_sound:
  assumes "solveChallenge P opts s e = Some r" and "found r"
  shows "\<exists>n. solves P (so_prefix opts) (so_target opts) n \<and>
             sr_nonce r = Some (natToString n) \<and>
             sr_hash r = Some (sha256hex P (so_prefix opts @ natToString n))"
proof -
  define M where "M = (case so_maxIterations opts of None \<Rightarrow> Fin 10000000 | Some m \<Rightarrow> m)"
  define p where "p = so_prefix opts"
  define t where "t = so_target opts"
  have run: "solveChallenge P \<lparr>so_prefix = p, so_target = t, so_maxIterations = Some M\<rparr> s e = Some r"
    using assms(1) solveChallenge_option [of P opts s e] by (simp add: M_def p_def t_def)
  show ?thesis
  proof (cases "\<exists>n. js_lt (Fin (of_nat n)) M \<and> solves P p t n")
    case True
    then obtain n where n: "solves P p t n" by blast
    define n0 where "n0 = (LEAST n. solves P p t n)"
    have s0: "solves P p t n0" unfolding n0_def using n by (rule LeastI)
    from run have "r = \<lparr>found = True, sr_nonce = Some (natToString n0), iterations = n0 + 1,
               timeMs = int e - int s, hashRate = calculateHashRate (n0 + 1) (int e - int s),
               sr_hash = Some (sha256hex P (p @ natToString n0))\<rparr>"
      unfolding solveChallenge_all if_P [OF True] by (simp add: Let_def n0_def)
    with s0 show ?thesis unfolding p_def t_def by auto
  next
    case False
    from run assms(2) show ?thesis
      unfolding solveChallenge_all if_not_P [OF False] by (auto split: if_splits)
  qed
qed

lemma verifyChallenge_unsigned:
  assumes "p \<noteq> []" "isTarget t" "0 < x" "of_nat (nowMs div 1000) \<le> x"
  shows "verifyChallenge P \<lparr>vo_prefix = JStr p, vo_nonce = JStr nonce, vo_target = JStr t,
             vo_expiresAt = JNum (Fin x), vo_signature = None, vo_secret = None,
             vo_requireSignature = False, vo_metadata = None\<rparr> nowMs =
         (if startsWith (sha256hex P (p @ nonce)) t
          then Inr \<lparr>valid = True, reason = None, vr_hash = Some (sha256hex P (p @ nonce))\<rparr>
          else Inr \<lparr>valid = False, reason = Some invalid_hash, vr_hash = Some (sha256hex P (p @ nonce))\<rparr>)"
  using assms
  by (subst verifyChallenge_passed_inputs [where p = p and t = t and x = x]) (auto simp: Let_def)

text \<open>
  C1: take a challenge that \<open>createChallenge\<close> returns (its prefix the hex of the eight
  random bytes), a solution that \<open>solveChallenge\<close> finds for its prefix and target under
  any iteration bound, and a moment at which the challenge has not expired.  Then
  \<open>verifyChallenge\<close>, called with the prefix, the solver's nonce, the target and
  \<open>expiresAt\<close>, returns \<open>valid: true\<close> with the hash the solver reported, and that hash
  starts with the target.
\<close>

theorem create_solve_verify:
  assumes created: "createChallenge P options createdMs idBytes prefixBytes = Inr ch"
      and bytes: "length prefixBytes = 8"
      and solved: "solveChallenge P \<lparr>so_prefix = c_prefix ch, so_target = c_target ch,
                     so_maxIterations = M\<rparr> startTime endTime = Some r"
      and found: "found r"
      and in_time: "\<not> js_gt (Fin (of_nat (verifiedMs div 1000))) (c_expiresAt ch)"
  shows "\<exists>nonce h. sr_nonce r = Some nonce \<and> sr_hash r = Some h \<and>
           verifyChallenge P \<lparr>vo_prefix = JStr (c_prefix ch), vo_nonce = JStr nonce,
               vo_target = JStr (c_target ch), vo_expiresAt = JNum (c_expiresAt ch),
               vo_signature = None, vo_secret = None, vo_requireSignature = False,
               vo_metadata = None\<rparr> verifiedMs =
             Inr \<lparr>valid = True, reason = None, vr_hash = Some h\<rparr> \<and>
           startsWith h (c_target ch)"
proof -
  define x where "x = of_nat (createdMs div 1000) + requestedExpiresIn (co_expiresIn options)"
  have exp: "c_expiresAt ch = Fin x"
    unfolding x_def using created by (rule createChallenge_fields)
  have "0 < requestedExpiresIn (co_expiresIn options)" by (rule requestedExpiresIn_pos)
  then have xpos: "0 < x" unfolding x_def by (simp add: add_nonneg_pos)
  have notexp: "of_nat (verifiedMs div 1000) \<le> x"
    using in_time unfolding exp js_gt_def by simp
  have "length (c_prefix ch) = 16"
    using createChallenge_fields(2) [OF created] bytes by (simp add: length_hexOfBytes)
  then have pne: "c_prefix ch \<noteq> []" by auto
  have tgt: "isTarget (c_target ch)"
    using createChallenge_fields(3) [OF created] clampDifficulty_range
    by (simp add: isTarget_replicate)
  from solveChallenge_found_sound [OF solved found]
  obtain n where n: "solves P (c_prefix ch) (c_target ch) n"
      "sr_nonce r = Some (natToString n)"
      "sr_hash r = Some (sha256hex P (c_prefix ch @ natToString n))"
    by auto
  have sw: "startsWith (sha256hex P (c_prefix ch @ natToString n)) (c_target ch)"
    using n(1) by (simp add: solves_def)
  have "verifyChallenge P \<lparr>vo_prefix = JStr (c_prefix ch), vo_nonce = JStr (natToString n),
               vo_target = JStr (c_target ch), vo_expiresAt = JNum (Fin x),
               vo_signature = None, vo_secret = None, vo_requireSignature = False,
               vo_metadata = None\<rparr> verifiedMs =
          Inr \<lparr>valid = True, reason = None, vr_hash = Some (sha256hex P (c_prefix ch @ natToString n))\<rparr>"
    using verifyChallenge_unsigned [OF pne tgt xpos notexp, of P "natToString n"] sw by simp
  with n(2,3) sw show ?thesis unfolding exp by simp
qed


theorem create_solve_verify_witness:
  "createChallenge demoPlatform
     \<lparr>co_difficulty = JNum (Fin 2), co_expiresIn = JUndefined, co_metadata = None, co_secret = None\<rparr>
     5000 
     [CHR 0x01, CHR 0x01, CHR 0x01, CHR 0x01, CHR 0x01, CHR 0x01, CHR 0x01, CHR 0x01, CHR 0x01, CHR 0x01, CHR 0x01, CHR 0x01]
     [CHR 0xAA, CHR 0xAA, CHR 0x90, CHR 0x00, CHR 0x00, CHR 0x00, CHR 0x00, CHR 0x00] =
     Inr \<lparr>c_id = ''nha_010101010101010101010101'', c_prefix = ''aaaa900000000000'',
          c_target = ''00'', c_expiresAt = Fin 65, c_metadata = None, c_signature = None\<rparr> \<and>
   solveChallenge demoPlatform
     \<lparr>so_prefix = ''aaaa900000000000'', so_target = ''00'', so_maxIterations = None\<rparr> 5001 5003 =
     Some \<lparr>found = True, sr_nonce = Some ''3'', iterations = 4, timeMs = 2, hashRate = 2000,
           sr_hash = Some ''00''\<rparr> \<and>
   verifyChallenge demoPlatform
     \<lparr>vo_prefix = JStr ''aaaa900000000000'', vo_nonce = JStr ''3'', vo_target = JStr ''00'',
      vo_expiresAt = JNum (Fin 65), vo_signature = None, vo_secret = None,
      vo_requireSignature = False, vo_metadata = None\<rparr> 65999 =
     Inr \<lparr>valid = True, reason = None, vr_hash = Some ''00''\<rparr> \<and>
   startsWith ''00'' ''00''"
proof -
  let ?ch = "\<lparr>c_id = ''nha_010101010101010101010101'', c_prefix = ''aaaa900000000000'',
          c_target = ''00'', c_expiresAt = Fin 65, c_metadata = None, c_signature = None\<rparr>"
  let ?r = "\<lparr>found = True, sr_nonce = Some ''3'', iterations = 4, timeMs = 2, hashRate = 2000,
           sr_hash = Some ''00''\<rparr>"
  have created: "createChallenge demoPlatform
     \<lparr>co_difficulty = JNum (Fin 2), co_expiresIn = JUndefined, co_metadata = None, co_secret = None\<rparr>
     5000 
     [CHR 0x01, CHR 0x01, CHR 0x01, CHR 0x01, CHR 0x01, CHR 0x01, CHR 0x01, CHR 0x01, CHR 0x01, CHR 0x01, CHR 0x01, CHR 0x01]
     [CHR 0xAA, CHR 0xAA, CHR 0x90, CHR 0x00, CHR 0x00, CHR 0x00, CHR 0x00, CHR 0x00] = Inr ?ch"
    by (simp add: createChallenge_unfold requestedDifficulty_def requestedExpiresIn_def
        clampDifficulty_def hexOfBytes_def hexDigit_def Let_def numeral_2_eq_2)
  have solved: "solveChallenge demoPlatform
     \<lparr>so_prefix = c_prefix ?ch, so_target = c_target ?ch, so_maxIterations = None\<rparr> 5001 5003 = Some ?r"
    by code_simp
  have found: "found ?r" by simp
  have in_time: "\<not> js_gt (Fin (of_nat (65999 div 1000))) (c_expiresAt ?ch)"
    by (simp add: js_gt_def)
  have bytes: "length [CHR 0xAA, CHR 0xAA, CHR 0x90, CHR 0x00, CHR 0x00, CHR 0x00, CHR 0x00, CHR 0x00] = 8"
    by simp
  from create_solve_verify [OF created bytes solved found in_time]
  have "verifyChallenge demoPlatform
     \<lparr>vo_prefix = JStr ''aaaa900000000000'', vo_nonce = JStr ''3'', vo_target = JStr ''00'',
      vo_expiresAt = JNum (Fin 65), vo_signature = None, vo_secret = None,
      vo_requireSignature = False, vo_metadata = None\<rparr> 65999 =
     Inr \<lparr>valid = True, reason = None, vr_hash = Some ''00''\<rparr> \<and> startsWith ''00'' ''00''"
    by simp
  with created solved show ?thesis by simp
qed

end
